theory Spec2Isabelle
  imports
    Complex_Main
    "HOL-Library.Word"
    "HOL-Library.List_Lexorder"
    "HOL-Library.Product_Lexorder"
begin

chapter \<open>A shallow embedding of the imq Redis message queue\<close>

text \<open>
  The development follows \<^verbatim>\<open>RedisQueue\<close> and the \<^verbatim>\<open>profile\<close> decorator. Part I
  holds the definitions, each with the source text it is taken from; Part II holds the
  lemmas and the theorems about them.

  Conventions. Keys, queue names and other strings the queue only compares, splits and
  concatenates are Isabelle strings. A packet (the wire form of an envelope) is a
  JavaScript string proper, a sequence of UTF-16 code units, because the gzip codec's
  \<^verbatim>\<open>'binary'\<close> encoding works on code units. Numbers that hold milliseconds or counts
  are integers. Everything the program takes from outside (the clock, the random source,
  the uuid generator, the replies of the server) is an explicit argument.
\<close>

section \<open>Part I: definitions\<close>

subsection \<open>Errors\<close>

text \<open>
  Exceptions and rejected promises are values: a computation that can throw returns
  \<open>error + 'a\<close>, with \<open>Inl\<close> for the error.
\<close>

datatype error =
    TypeError string        \<comment> \<open>thrown by the language or by \<^verbatim>\<open>start\<close>\<close>
  | SyntaxError             \<comment> \<open>thrown by \<^verbatim>\<open>JSON.parse\<close>\<close>
  | ZlibError               \<comment> \<open>thrown by \<^verbatim>\<open>gunzipSync\<close>\<close>
  | ReplyError string       \<comment> \<open>an error reply of the server, such as WRONGTYPE\<close>
  | TransportError string   \<comment> \<open>a command or a connection that failed on the way\<close>

subsection \<open>intrand\<close>

text \<open>
  \<^verbatim>\<open>Math.floor(Math.random() * (max - min + 1)) + min\<close>. The value of
  \<^verbatim>\<open>Math.random()\<close> is the argument \<open>rnd\<close>, a real in \<open>[0, 1)\<close>.
\<close>

definition intrand :: "real \<Rightarrow> int \<Rightarrow> int \<Rightarrow> int" where
  "intrand rnd mn mx = \<lfloor>rnd * of_int (mx - mn + 1)\<rfloor> + mn"

text \<open>The delay of the dead-lock check in \<^verbatim>\<open>initWatcher\<close>: \<^verbatim>\<open>intrand(1, 50)\<close>.\<close>

definition backoff_delay :: "real \<Rightarrow> int" where
  "backoff_delay rnd = intrand rnd 1 50"

subsection \<open>The operations on strings and arrays the queue uses\<close>

text \<open>
  \<^verbatim>\<open>s.split(':')\<close>: the segments of \<open>s\<close> between the separators, at least one
  (the empty string splits into one empty segment).
\<close>

fun split_on :: "char \<Rightarrow> string \<Rightarrow> string list" where
  "split_on c [] = [[]]"
| "split_on c (x # xs) =
     (if x = c then [] # split_on c xs
      else (case split_on c xs of w # ws \<Rightarrow> (x # w) # ws | [] \<Rightarrow> [[x]]))"

definition split_colon :: "string \<Rightarrow> string list" where
  "split_colon s = split_on CHR '':'' s"

text \<open>\<^verbatim>\<open>a.join(':')\<close>.\<close>

fun join_with :: "string \<Rightarrow> string list \<Rightarrow> string" where
  "join_with sep [] = []"
| "join_with sep [x] = x"
| "join_with sep (x # y # ys) = x @ sep @ join_with sep (y # ys)"

definition join_colon :: "string list \<Rightarrow> string" where
  "join_colon xs = join_with '':'' xs"

text \<open>
  \<^verbatim>\<open>a.pop()\<close> and \<^verbatim>\<open>a.shift()\<close> return the removed element and leave the rest in the
  array; on an empty array they return \<^verbatim>\<open>undefined\<close>, here \<open>None\<close>.
\<close>

definition pop :: "'a list \<Rightarrow> 'a option \<times> 'a list" where
  "pop xs = (if xs = [] then (None, []) else (Some (last xs), butlast xs))"

definition shift :: "'a list \<Rightarrow> 'a option \<times> 'a list" where
  "shift xs = (case xs of [] \<Rightarrow> (None, []) | x # rest \<Rightarrow> (Some x, rest))"

text \<open>A value interpolated into a template literal: \<^verbatim>\<open>undefined\<close> prints as its name.\<close>

definition interpolate :: "string option \<Rightarrow> string" where
  "interpolate v = (case v of None \<Rightarrow> ''undefined'' | Some s \<Rightarrow> s)"

subsection \<open>Numbers in keys\<close>

text \<open>
  \<^verbatim>\<open>readSafe\<close> writes the expiry time into the worker key with a template literal and the
  sweeper reads it back with \<^verbatim>\<open>Number(...)\<close>. The time is an integer number of
  milliseconds; a template literal prints an integer in decimal (up to 21 digits, far
  above any clock value).
\<close>

definition digit_char :: "nat \<Rightarrow> char" where
  "digit_char d = char_of (48 + d)"

fun nat_digits :: "nat \<Rightarrow> string" where
  "nat_digits n = (if n < 10 then [digit_char n] else nat_digits (n div 10) @ [digit_char (n mod 10)])"

declare nat_digits.simps [simp del]

definition int_to_string :: "int \<Rightarrow> string" where
  "int_to_string i = (if i < 0 then CHR ''-'' # nat_digits (nat (- i)) else nat_digits (nat i))"

text \<open>
  \<^verbatim>\<open>Number(v)\<close>, on the values the sweeper can pass: \<^verbatim>\<open>undefined\<close> is NaN, the empty
  string is 0, and a decimal integer with an optional sign is its value. The other forms
  \<^verbatim>\<open>Number\<close> reads (blanks around the literal, a fraction, an exponent, a radix
  prefix, \<^verbatim>\<open>Infinity\<close>) never occur in a key that \<^verbatim>\<open>readSafe\<close> writes; this model
  reads them as NaN, and no theorem below relies on that.
\<close>

datatype js_number = NaN | Finite int

definition digit_of :: "char \<Rightarrow> nat option" where
  "digit_of c = (let n = (of_char c :: nat) in if 48 \<le> n \<and> n \<le> 57 then Some (n - 48) else None)"

fun digits_value :: "nat \<Rightarrow> string \<Rightarrow> nat option" where
  "digits_value acc [] = Some acc"
| "digits_value acc (c # cs) =
     (case digit_of c of None \<Rightarrow> None | Some d \<Rightarrow> digits_value (10 * acc + d) cs)"

definition unsigned_value :: "string \<Rightarrow> nat option" where
  "unsigned_value s = (if s = [] then None else digits_value 0 s)"

definition js_Number :: "string option \<Rightarrow> js_number" where
  "js_Number v =
     (case v of
        None \<Rightarrow> NaN
      | Some [] \<Rightarrow> Finite 0
      | Some (c # cs) \<Rightarrow>
          if c = CHR ''-'' then (case unsigned_value cs of None \<Rightarrow> NaN | Some n \<Rightarrow> Finite (- int n))
          else if c = CHR ''+'' then (case unsigned_value cs of None \<Rightarrow> NaN | Some n \<Rightarrow> Finite (int n))
          else (case unsigned_value (c # cs) of None \<Rightarrow> NaN | Some n \<Rightarrow> Finite (int n)))"

text \<open>\<^verbatim>\<open>x >= now\<close> for a number \<open>x\<close> and an integer clock value: false when \<open>x\<close> is NaN.\<close>

definition js_ge :: "js_number \<Rightarrow> int \<Rightarrow> bool" where
  "js_ge x n = (case x of NaN \<Rightarrow> False | Finite i \<Rightarrow> n \<le> i)"

subsection \<open>The server: a typed keyspace and the commands the queue issues\<close>

text \<open>
  The queue talks to a Redis server. The server is not part of the repository; the
  definitions here follow the documented behaviour of the commands the source issues,
  on a single keyspace in which a key holds a list, a sorted set or a string. An empty
  list or sorted set does not exist as a key. A command on a key of the wrong type is
  answered by an error and changes nothing.
\<close>

type_synonym js_string = "16 word list"

datatype rvalue =
    RList "js_string list"            \<comment> \<open>head first\<close>
  | RZSet "(int \<times> js_string) list"    \<comment> \<open>(score, member), in the order of the set\<close>
  | RString js_string "int option"    \<comment> \<open>value, and the time to live in ms if any\<close>

type_synonym keyspace = "string \<Rightarrow> rvalue option"

definition wrongtype :: error where
  "wrongtype = ReplyError ''WRONGTYPE Operation against a key holding the wrong kind of value''"

definition redis_lpush :: "string \<Rightarrow> js_string \<Rightarrow> keyspace \<Rightarrow> error + nat \<times> keyspace" where
  "redis_lpush k v db =
     (case db k of
        None \<Rightarrow> Inr (1, db(k \<mapsto> RList [v]))
      | Some (RList xs) \<Rightarrow> Inr (Suc (length xs), db(k \<mapsto> RList (v # xs)))
      | Some _ \<Rightarrow> Inl wrongtype)"

definition store_list :: "string \<Rightarrow> js_string list \<Rightarrow> keyspace \<Rightarrow> keyspace" where
  "store_list k xs db = (if xs = [] then db(k := None) else db(k \<mapsto> RList xs))"

text \<open>
  RPOPLPUSH: nothing happens when the source does not exist; the type of the destination
  is checked before the element is popped; source and destination may be the same key.
\<close>

definition redis_rpoplpush ::
  "string \<Rightarrow> string \<Rightarrow> keyspace \<Rightarrow> error + js_string option \<times> keyspace" where
  "redis_rpoplpush src dst db =
     (case db src of
        None \<Rightarrow> Inr (None, db)
      | Some (RList xs) \<Rightarrow>
          if xs = [] then Inr (None, db)
          else (case db dst of
                  Some (RZSet _) \<Rightarrow> Inl wrongtype
                | Some (RString _ _) \<Rightarrow> Inl wrongtype
                | _ \<Rightarrow>
                    let db1 = store_list src (butlast xs) db;
                        ys = (case db1 dst of Some (RList ys) \<Rightarrow> ys | _ \<Rightarrow> [])
                    in Inr (Some (last xs), db1(dst \<mapsto> RList (last xs # ys))))
      | Some _ \<Rightarrow> Inl wrongtype)"


text \<open>ZRANGEBYSCORE key -inf max.\<close>

definition redis_zrangebyscore :: "string \<Rightarrow> int \<Rightarrow> keyspace \<Rightarrow> error + js_string list" where
  "redis_zrangebyscore k mx db =
     (case db k of
        None \<Rightarrow> Inr []
      | Some (RZSet zs) \<Rightarrow> Inr (map snd (filter (\<lambda>e. fst e \<le> mx) zs))
      | Some _ \<Rightarrow> Inl wrongtype)"

text \<open>ZREMRANGEBYSCORE key -inf max.\<close>

definition redis_zremrangebyscore :: "string \<Rightarrow> int \<Rightarrow> keyspace \<Rightarrow> error + nat \<times> keyspace" where
  "redis_zremrangebyscore k mx db =
     (case db k of
        None \<Rightarrow> Inr (0, db)
      | Some (RZSet zs) \<Rightarrow>
          let keep = filter (\<lambda>e. \<not> fst e \<le> mx) zs
          in Inr (length zs - length keep,
                  if keep = [] then db(k := None) else db(k \<mapsto> RZSet keep))
      | Some _ \<Rightarrow> Inl wrongtype)"


text \<open>SETNX, EXISTS and DEL of one key.\<close>

definition redis_setnx :: "string \<Rightarrow> js_string \<Rightarrow> keyspace \<Rightarrow> bool \<times> keyspace" where
  "redis_setnx k v db = (if db k \<noteq> None then (False, db) else (True, db(k \<mapsto> RString v None)))"

definition redis_exists :: "string \<Rightarrow> keyspace \<Rightarrow> bool" where
  "redis_exists k db = (db k \<noteq> None)"

definition redis_del :: "string \<Rightarrow> keyspace \<Rightarrow> bool \<times> keyspace" where
  "redis_del k db = (db k \<noteq> None, db(k := None))"

subsection \<open>The moveDelayed script\<close>

text \<open>
  The Lua text of \<^verbatim>\<open>scripts.moveDelayed\<close>, with \<^verbatim>\<open>KEYS[1]\<close>, \<^verbatim>\<open>KEYS[2]\<close> and
  \<^verbatim>\<open>ARGV[1]\<close> as the arguments \<open>zkey\<close>, \<open>lkey\<close> and \<open>now\<close>. The server runs a script as
  one step, so the script is a function on the keyspace. \<^verbatim>\<open>redis.call\<close> raises the
  error of a failed command, which ends the script; what the script did before stays.

  The loop \<^verbatim>\<open>while messages[i] do ... i = i + 1 end\<close> walks the reply from its first
  element; every element is a string, so it stops at the end of the reply.
\<close>

fun lpush_each :: "string \<Rightarrow> js_string list \<Rightarrow> keyspace \<Rightarrow> error option \<times> keyspace" where
  "lpush_each k [] db = (None, db)"
| "lpush_each k (m # ms) db =
     (case redis_lpush k m db of
        Inl e \<Rightarrow> (Some e, db)
      | Inr (_, db') \<Rightarrow> lpush_each k ms db')"

definition moveDelayed :: "string \<Rightarrow> string \<Rightarrow> int \<Rightarrow> keyspace \<Rightarrow> (error + nat) \<times> keyspace" where
  "moveDelayed zkey lkey now db =
     (case redis_zrangebyscore zkey now db of
        Inl e \<Rightarrow> (Inl e, db)
      | Inr messages \<Rightarrow>
          let count = length messages in
          if count > 0 then
            (case lpush_each lkey messages db of
               (Some e, db1) \<Rightarrow> (Inl e, db1)
             | (None, db1) \<Rightarrow>
                 (case redis_zremrangebyscore zkey now db1 of
                    Inl e \<Rightarrow> (Inl e, db1)
                  | Inr (_, db2) \<Rightarrow> (Inr count, db2)))
          else (Inr count, db))"

text \<open>
  What a key holds, read as a list or as a sorted set: a key that does not exist reads
  as the empty one, a key of another type does not read at all.
\<close>

definition list_at :: "keyspace \<Rightarrow> string \<Rightarrow> js_string list option" where
  "list_at db k = (case db k of None \<Rightarrow> Some [] | Some (RList xs) \<Rightarrow> Some xs | Some _ \<Rightarrow> None)"

definition zset_at :: "keyspace \<Rightarrow> string \<Rightarrow> (int \<times> js_string) list option" where
  "zset_at db k = (case db k of None \<Rightarrow> Some [] | Some (RZSet zs) \<Rightarrow> Some zs | Some _ \<Rightarrow> None)"

subsection \<open>Values, the platform and the codec\<close>

text \<open>
  The values \<^verbatim>\<open>JSON.parse\<close> returns. An envelope is the object
  \<^verbatim>\<open>{ id, message, from: this.name }\<close> that \<^verbatim>\<open>send\<close> builds.
\<close>

datatype json =
    JNull
  | JBool bool
  | JNum real
  | JStr string
  | JArr "json list"
  | JObj "(string \<times> json) list"

definition envelope :: "string \<Rightarrow> json \<Rightarrow> string \<Rightarrow> json" where
  "envelope ident message from_name =
     JObj [(''id'', JStr ident), (''message'', message), (''from'', JStr from_name)]"

text \<open>
  \<^verbatim>\<open>JSON.stringify\<close>, \<^verbatim>\<open>JSON.parse\<close>, \<^verbatim>\<open>gzipSync\<close>, \<^verbatim>\<open>gunzipSync\<close> and the UTF-8
  conversion between a string and a buffer belong to the platform, not to the
  repository. They are arguments of the model, gathered in a record; what a theorem
  needs of them it states as a hypothesis. \<^verbatim>\<open>gzipSync\<close> is applied to a string, which
  zlib first turns into its UTF-8 bytes; \<^verbatim>\<open>buffer.toString()\<close> reads bytes as UTF-8.
\<close>

type_synonym buffer = "8 word list"

record platform =
  JSON_stringify :: "json \<Rightarrow> error + js_string"
  JSON_parse :: "js_string \<Rightarrow> error + json"
  utf8_encode :: "js_string \<Rightarrow> buffer"
  utf8_decode :: "buffer \<Rightarrow> js_string"
  gzip :: "buffer \<Rightarrow> buffer"
  gunzip :: "buffer \<Rightarrow> error + buffer"

text \<open>
  The \<^verbatim>\<open>'binary'\<close> encoding of a buffer: \<^verbatim>\<open>buffer.toString('binary')\<close> makes one
  code unit of each byte, and \<^verbatim>\<open>Buffer.from(s, 'binary')\<close> keeps the low byte of each
  code unit.
\<close>

definition Buffer_toString_binary :: "buffer \<Rightarrow> js_string" where
  "Buffer_toString_binary b = map ucast b"

definition Buffer_from_binary :: "js_string \<Rightarrow> buffer" where
  "Buffer_from_binary s = map ucast s"

text \<open>\<^verbatim>\<open>pack\<close>: \<^verbatim>\<open>gzip(JSON.stringify(data)).toString('binary')\<close>.\<close>

definition pack :: "platform \<Rightarrow> json \<Rightarrow> error + js_string" where
  "pack P data =
     (case JSON_stringify P data of
        Inl e \<Rightarrow> Inl e
      | Inr s \<Rightarrow> Inr (Buffer_toString_binary (gzip P (utf8_encode P s))))"

text \<open>\<^verbatim>\<open>unpack\<close>: \<^verbatim>\<open>JSON.parse(gunzip(Buffer.from(data, 'binary')).toString())\<close>.\<close>

definition unpack :: "platform \<Rightarrow> js_string \<Rightarrow> error + json" where
  "unpack P data =
     (case gunzip P (Buffer_from_binary data) of
        Inl e \<Rightarrow> Inl e
      | Inr b \<Rightarrow> JSON_parse P (utf8_decode P b))"

subsection \<open>The queue\<close>

record IMQOptions =
  host :: string
  port :: nat
  prefix :: string
  watcherCheckDelay :: int
  useGzip :: bool
  safeDelivery :: bool
  safeDeliveryTtl :: int

definition DEFAULT_IMQ_OPTIONS :: IMQOptions where
  "DEFAULT_IMQ_OPTIONS =
     \<lparr>host = ''localhost'', port = 6379, prefix = ''imq'', watcherCheckDelay = 5000,
      useGzip = False, safeDelivery = False, safeDeliveryTtl = 5000\<rparr>"

datatype channel = Reader | Writer | Watcher

datatype event =
    MessageEvent "json option" "json option" "json option"
      \<comment> \<open>\<^verbatim>\<open>emit('message', message, id, from)\<close>; \<open>None\<close> is \<^verbatim>\<open>undefined\<close>\<close>
  | ErrorEvent error string
      \<comment> \<open>\<^verbatim>\<open>emit('error', err, source)\<close>\<close>

text \<open>
  What the queue does to the world besides writing the keyspace, in the order it does
  it. \<open>Called_processDelayed\<close> is a history entry: it records a call of
  \<^verbatim>\<open>processDelayed\<close> with its argument.
\<close>

datatype action =
    CreateClient channel                \<comment> \<open>\<^verbatim>\<open>redis.createClient\<close> in \<^verbatim>\<open>connect\<close>\<close>
  | Emitted event
  | SignalHandlersInstalled             \<comment> \<open>\<^verbatim>\<open>process.on('SIGTERM' / 'SIGINT', free)\<close>\<close>
  | ConfigSet                           \<comment> \<open>\<^verbatim>\<open>config('set', 'notify-keyspace-events', 'Ex')\<close>\<close>
  | PmessageHandlerInstalled
  | Subscribed                          \<comment> \<open>\<^verbatim>\<open>psubscribe\<close>\<close>
  | SweeperStarted                      \<comment> \<open>\<^verbatim>\<open>setInterval\<close> of the safe-delivery check\<close>
  | ScriptsLoading                      \<comment> \<open>the \<^verbatim>\<open>script exists / load\<close> calls of \<^verbatim>\<open>ownWatch\<close>\<close>
  | Waited int                          \<comment> \<open>\<^verbatim>\<open>setTimeout(..., intrand(1, 50))\<close>\<close>
  | ReadLoopStarted bool                \<comment> \<open>\<^verbatim>\<open>readSafe\<close> (True) or \<^verbatim>\<open>readUnsafe\<close>\<close>
  | Called_processDelayed string
  | ErrorHandlerCalled error            \<comment> \<open>the \<^verbatim>\<open>errorHandler\<close> argument of \<^verbatim>\<open>send\<close>\<close>
  | RejectionUnhandled error            \<comment> \<open>a promise that nobody awaits is rejected\<close>

text \<open>
  \<^verbatim>\<open>RedisQueue\<close> extends the \<^verbatim>\<open>EventEmitter\<close> of Node. A listener is code of the embedder:
  called with an event it returns (\<open>None\<close>) or throws.
\<close>

type_synonym listener = "event \<Rightarrow> error option"

fun event_name :: "event \<Rightarrow> string" where
  "event_name (MessageEvent message ident sender) = ''message''"
| "event_name (ErrorEvent err source) = ''error''"

text \<open>
  One queue object and the world it lives in. \<open>writer\<close> is \<^verbatim>\<open>RedisQueue.writers[redisKey]\<close>
  and \<open>watcher\<close> is \<^verbatim>\<open>this.watchers[redisKey]\<close>, each present or not; the writer map is
  shared by the queues of a process, so another queue can remove the writer.
  \<open>watcher_ready\<close> is \<^verbatim>\<open>watcher.__ready__\<close>, \<open>checksum\<close> says whether
  \<^verbatim>\<open>scripts.moveDelayed.checksum\<close> is set, \<open>db\<close> is the keyspace of the server and
  \<open>trace\<close> the actions so far. \<open>listeners\<close> is the table of the \<^verbatim>\<open>EventEmitter\<close>: the
  listeners registered under an event name, in the order of registration. Lines written
  to the logger are not modelled.
\<close>

record RedisQueue =
  name :: string
  options :: IMQOptions
  reader :: bool
  writer :: bool
  watcher :: bool
  watcher_ready :: bool
  initialized :: bool
  watchOwner :: bool
  signalsInitialized :: bool
  safeCheckInterval :: bool
  checksum :: bool
  db :: keyspace
  trace :: "action list"
  listeners :: "string \<Rightarrow> listener list"

text \<open>
  The constructor: the options given override the defaults. It registers no listener.
\<close>

definition new_RedisQueue :: "string \<Rightarrow> IMQOptions \<Rightarrow> keyspace \<Rightarrow> RedisQueue" where
  "new_RedisQueue nm opts server =
     \<lparr>name = nm, options = opts, reader = False, writer = False, watcher = False,
      watcher_ready = False, initialized = False, watchOwner = False,
      signalsInitialized = False, safeCheckInterval = False, checksum = False,
      db = server, trace = [], listeners = (\<lambda>event. [])\<rparr>"


text \<open>
  \<^verbatim>\<open>this.pack = this.options.useGzip ? pack : JSON.stringify\<close> and
  \<^verbatim>\<open>this.unpack = this.options.useGzip ? unpack : JSON.parse\<close>.
\<close>

definition queue_pack :: "platform \<Rightarrow> IMQOptions \<Rightarrow> json \<Rightarrow> error + js_string" where
  "queue_pack P opts = (if useGzip opts then pack P else JSON_stringify P)"

definition queue_unpack :: "platform \<Rightarrow> IMQOptions \<Rightarrow> js_string \<Rightarrow> error + json" where
  "queue_unpack P opts = (if useGzip opts then unpack P else JSON_parse P)"

text \<open>The getters \<^verbatim>\<open>key\<close> and \<^verbatim>\<open>lockKey\<close>.\<close>

definition key :: "RedisQueue \<Rightarrow> string" where
  "key q = prefix (options q) @ '':'' @ name q"

definition lockKey :: "RedisQueue \<Rightarrow> string" where
  "lockKey q = prefix (options q) @ '':watch:lock''"

definition act :: "action \<Rightarrow> RedisQueue \<Rightarrow> RedisQueue" where
  "act a q = q\<lparr>trace := trace q @ [a]\<rparr>"

text \<open>
  The listeners of an event are called one after the other; what one of them throws
  leaves the others uncalled.
\<close>

fun call_listeners :: "listener list \<Rightarrow> event \<Rightarrow> error option" where
  "call_listeners [] ev = None"
| "call_listeners (l # ls) ev =
     (case l ev of Some e \<Rightarrow> Some e | None \<Rightarrow> call_listeners ls ev)"

text \<open>
  \<^verbatim>\<open>this.emit(...)\<close>, as \<^verbatim>\<open>EventEmitter\<close> defines it: an \<^verbatim>\<open>'error'\<close> event that has no
  listener is not delivered, its error is thrown instead (every value of \<open>error\<close> is an
  \<^verbatim>\<open>Error\<close> object); any other event is handed to its listeners, if there are any. The
  result is what the call throws, if anything, and the state.
\<close>

definition emit :: "event \<Rightarrow> RedisQueue \<Rightarrow> error option \<times> RedisQueue" where
  "emit ev q =
     (let ls = listeners q (event_name ev) in
      case ev of
        ErrorEvent err source \<Rightarrow>
          if ls = [] then (Some err, q) else (call_listeners ls ev, act (Emitted ev) q)
      | MessageEvent message ident sender \<Rightarrow> (call_listeners ls ev, act (Emitted ev) q))"

text \<open>
  The outcome of a callback whose promise nobody awaits: what it throws becomes an
  unhandled rejection.
\<close>

definition unawaited :: "error option \<times> RedisQueue \<Rightarrow> RedisQueue" where
  "unawaited r = (case r of (None, q) \<Rightarrow> q | (Some e, q) \<Rightarrow> act (RejectionUnhandled e) q)"

text \<open>A method called on \<^verbatim>\<open>this.writer\<close> while there is no writer.\<close>

definition no_writer :: error where
  "no_writer = TypeError ''Cannot read properties of undefined''"

subsection \<open>process\<close>





subsection \<open>processDelayed and the handler of expired keys\<close>

text \<open>
  \<^verbatim>\<open>processDelayed(key)\<close>: when the checksum of the script is known, \<^verbatim>\<open>evalsha\<close> with
  \<^verbatim>\<open>KEYS = [key + ':delayed', key]\<close> and \<^verbatim>\<open>ARGV = [Date.now()]\<close>. The result is the error
  the returned promise is rejected with, if any, and the new state.
\<close>

definition processDelayed :: "int \<Rightarrow> string \<Rightarrow> RedisQueue \<Rightarrow> error option \<times> RedisQueue" where
  "processDelayed now k q0 =
     (let q = act (Called_processDelayed k) q0 in
      if checksum q then
        if \<not> writer q then (Some no_writer, q)
        else (case moveDelayed (k @ '':delayed'') k now (db q) of
                (Inl e, db') \<Rightarrow> (Some e, q\<lparr>db := db'\<rparr>)
              | (Inr _, db') \<Rightarrow> (None, q\<lparr>db := db'\<rparr>))
      else (None, q))"

text \<open>
  The \<^verbatim>\<open>pmessage\<close> handler that \<^verbatim>\<open>watch\<close> installs. \<open>args\<close> are the arguments of the
  event; the last one is the key that expired. The handler is an \<^verbatim>\<open>async\<close> function that
  nobody awaits.
\<close>

definition on_pmessage :: "int \<Rightarrow> string list \<Rightarrow> RedisQueue \<Rightarrow> RedisQueue" where
  "on_pmessage now args q =
     (case (case pop args of
              (None, _) \<Rightarrow> (Some (TypeError ''Cannot read properties of undefined''), q)
            | (Some a, _) \<Rightarrow>
                let k = split_colon a; (l, k1) = pop k in
                if l \<noteq> Some ''ttl'' then (None, q)
                else let (_, k2) = pop k1 in processDelayed now (join_colon k2) q)
      of (None, q') \<Rightarrow> q'
       | (Some err, q') \<Rightarrow> unawaited (emit (ErrorEvent err ''OnWatch'') q'))"

subsection \<open>The safe-delivery sweeper\<close>

text \<open>
  The worker key \<^verbatim>\<open>readSafe\<close> moves a message to:
  \<^verbatim>\<open>`${key}:worker:${uuid()}:${expire}`\<close>, where \<^verbatim>\<open>expire\<close> is
  \<^verbatim>\<open>Date.now() + safeDeliveryTtl\<close>.
\<close>

definition workerKey :: "string \<Rightarrow> string \<Rightarrow> int \<Rightarrow> string" where
  "workerKey k worker_id expire = k @ '':worker:'' @ worker_id @ '':'' @ int_to_string expire"

text \<open>The body of \<^verbatim>\<open>for (let key of keys)\<close> in the sweeper, for one key.\<close>

definition sweep_key :: "int \<Rightarrow> string \<Rightarrow> keyspace \<Rightarrow> error + keyspace" where
  "sweep_key now k kspace =
     (let kp = split_colon k; (l, kp1) = pop kp in
      if js_ge (js_Number l) now then
        let (a, kp2) = shift kp1;
            (b, kp3) = shift kp2;
            qKey = interpolate a @ '':'' @ interpolate b
        in (case redis_rpoplpush k qKey kspace of
              Inl e \<Rightarrow> Inl e
            | Inr (_, kspace') \<Rightarrow> Inr kspace')
      else Inr kspace)"

text \<open>The loop over the keys of one page; an error ends it.\<close>

fun sweep_keys :: "int \<Rightarrow> string list \<Rightarrow> keyspace \<Rightarrow> error option \<times> keyspace" where
  "sweep_keys now [] kspace = (None, kspace)"
| "sweep_keys now (k # ks) kspace =
     (case sweep_key now k kspace of
        Inl e \<Rightarrow> (Some e, kspace)
      | Inr kspace' \<Rightarrow> sweep_keys now ks kspace')"

text \<open>
  The \<^verbatim>\<open>while (true)\<close> loop over the pages of SCAN. Which keys a page holds and which
  cursor it returns is the server's answer: the answers to the successive SCAN calls
  are the argument \<open>replies\<close>, each an error or a cursor with the keys that match
  \<^verbatim>\<open>`${prefix}:*:worker:*`\<close>. The loop ends on the cursor \<^verbatim>\<open>'0'\<close> or on an error; when the
  answers run out first, the sweep is still waiting for the server and has done what
  the state shows. In the \<^verbatim>\<open>catch\<close> the timer is cleared after the \<^verbatim>\<open>emit\<close>, so it is not
  when the \<^verbatim>\<open>emit\<close> throws.
\<close>

definition sweep_failed :: "error \<Rightarrow> RedisQueue \<Rightarrow> RedisQueue" where
  "sweep_failed err q =
     unawaited (case emit (ErrorEvent err ''OnSafeDelivery'') q of
                  (None, q') \<Rightarrow> (None, q'\<lparr>safeCheckInterval := False\<rparr>)
                | (Some e, q') \<Rightarrow> (Some e, q'))"

fun sweep_pages :: "int \<Rightarrow> (error + string \<times> string list) list \<Rightarrow> RedisQueue \<Rightarrow> RedisQueue" where
  "sweep_pages now [] q = q"
| "sweep_pages now (Inl err # rest) q = sweep_failed err q"
| "sweep_pages now (Inr (cursor, ks) # rest) q =
     (case sweep_keys now ks (db q) of
        (Some err, kspace) \<Rightarrow> sweep_failed err (q\<lparr>db := kspace\<rparr>)
      | (None, kspace) \<Rightarrow>
          if cursor = ''0'' then q\<lparr>db := kspace\<rparr> else sweep_pages now rest (q\<lparr>db := kspace\<rparr>))"

text \<open>One tick of the interval timer: \<open>now\<close> is read once, before the first SCAN.\<close>

definition safeCheck :: "int \<Rightarrow> (error + string \<times> string list) list \<Rightarrow> RedisQueue \<Rightarrow> RedisQueue" where
  "safeCheck now replies q =
     (if \<not> writer q then q\<lparr>safeCheckInterval := False\<rparr> else sweep_pages now replies q)"

subsection \<open>Connections and the watcher\<close>

definition has_channel :: "channel \<Rightarrow> RedisQueue \<Rightarrow> bool" where
  "has_channel ch q = (case ch of Reader \<Rightarrow> reader q | Writer \<Rightarrow> writer q | Watcher \<Rightarrow> watcher q)"

definition set_channel :: "channel \<Rightarrow> RedisQueue \<Rightarrow> RedisQueue" where
  "set_channel ch q =
     (case ch of
        Reader \<Rightarrow> q\<lparr>reader := True\<rparr>
      | Writer \<Rightarrow> q\<lparr>writer := True\<rparr>
      | Watcher \<Rightarrow> q\<lparr>watcher := True\<rparr>)"

text \<open>
  \<^verbatim>\<open>connect(channel, options)\<close>: an existing connection is returned as it is; otherwise
  a client is created and stored, and the promise is resolved on \<^verbatim>\<open>ready\<close> or rejected
  on \<^verbatim>\<open>error\<close>, which also clears \<open>initialized\<close>. Which of the two events comes is the
  argument \<open>ok\<close>.
\<close>

definition connect :: "channel \<Rightarrow> bool \<Rightarrow> RedisQueue \<Rightarrow> error option \<times> RedisQueue" where
  "connect ch ok q =
     (if has_channel ch q then (None, q)
      else
        let q1 = act (CreateClient ch) (set_channel ch q) in
        if ok then (None, q1)
        else (Some (TransportError ''connection failed''), q1\<lparr>initialized := False\<rparr>))"

text \<open>
  \<^verbatim>\<open>watch()\<close>. The result is what the call throws, if anything, and the state; it throws
  what the \<^verbatim>\<open>emit\<close> in its \<^verbatim>\<open>catch\<close> throws.
\<close>

definition watch :: "RedisQueue \<Rightarrow> error option \<times> RedisQueue" where
  "watch q =
     (if \<not> watcher q \<or> watcher_ready q then (None, q)
      else
        (case (if writer q then (None, act ConfigSet q)
               else emit (ErrorEvent no_writer ''OnConfig'') q) of
           (Some err, q1) \<Rightarrow> (Some err, q1)
         | (None, q1) \<Rightarrow>
             let q2 = act PmessageHandlerInstalled q1;
                 q3 = act Subscribed q2;
                 q4 = (if safeDelivery (options q3) \<and> \<not> safeCheckInterval q3
                       then (act SweeperStarted q3)\<lparr>safeCheckInterval := True\<rparr>
                       else q3)
             in (None, q4\<lparr>watcher_ready := True\<rparr>)))"

text \<open>
  \<^verbatim>\<open>ownWatch()\<close>: \<^verbatim>\<open>lock()\<close> is SETNX on the lock key. The owner sets the checksum of
  each script at once and loads the scripts in the background; the server is taken to
  accept them.
\<close>

definition ownWatch :: "bool \<Rightarrow> RedisQueue \<Rightarrow> error option \<times> RedisQueue" where
  "ownWatch watcher_ok q =
     (if \<not> writer q then (Some no_writer, q)
      else
        (case redis_setnx (lockKey q) [] (db q) of
           (owned, kspace) \<Rightarrow>
             let q1 = q\<lparr>db := kspace\<rparr> in
             if owned then
               let q2 = (act ScriptsLoading q1)\<lparr>checksum := True, watchOwner := True\<rparr> in
               (case connect Watcher watcher_ok q2 of
                  (Some err, q3) \<Rightarrow> (Some err, q3)
                | (None, q3) \<Rightarrow> watch q3)
             else (None, q1)))"

text \<open>
  What \<^verbatim>\<open>start\<close> takes from outside: which connections come up, how many watcher
  clients \<^verbatim>\<open>watcherCount()\<close> sees on its first and on its second call, the value of
  \<^verbatim>\<open>Math.random()\<close> and the value of \<^verbatim>\<open>Date.now()\<close>.
\<close>

record start_env =
  reader_ok :: bool
  writer_ok :: bool
  watcher_ok :: bool
  watchers_seen :: nat
  watchers_seen_later :: nat
  random :: real
  clock :: int

text \<open>\<^verbatim>\<open>initWatcher()\<close>.\<close>

definition initWatcher :: "start_env \<Rightarrow> RedisQueue \<Rightarrow> error option \<times> RedisQueue" where
  "initWatcher e q =
     (if \<not> writer q then (Some no_writer, q)
      else if watchers_seen e = 0 then
        (case ownWatch (watcher_ok e) q of
           (Some err, q1) \<Rightarrow> (Some err, q1)
         | (None, q1) \<Rightarrow>
             if watchOwner q1 \<and> watcher q1 then (None, q1)
             else
               let q2 = act (Waited (backoff_delay (random e))) q1 in
               if redis_exists (lockKey q2) (db q2) \<and> watchers_seen_later e = 0 then
                 ownWatch (watcher_ok e) (q2\<lparr>db := snd (redis_del (lockKey q2) (db q2))\<rparr>)
               else (None, q2))
      else (None, q))"

text \<open>\<^verbatim>\<open>read()\<close>: the read loop is started on the next tick.\<close>

definition read :: "RedisQueue \<Rightarrow> RedisQueue" where
  "read q = (if \<not> reader q then q else act (ReadLoopStarted (safeDelivery (options q))) q)"

subsection \<open>start\<close>

text \<open>
  \<^verbatim>\<open>start()\<close>. Both \<^verbatim>\<open>connect\<close> calls are made before \<^verbatim>\<open>Promise.all\<close> is awaited. The
  promise of \<^verbatim>\<open>processDelayed\<close> is not awaited, nor is the one its \<^verbatim>\<open>catch\<close> returns. The
  result is the error the promise is rejected with, if any, and the state.
\<close>

definition start :: "start_env \<Rightarrow> RedisQueue \<Rightarrow> error option \<times> RedisQueue" where
  "start e q =
     (if name q = [] then (Some (TypeError (name q @ '': No queue name provided!'')), q)
      else if initialized q then (None, q)
      else
        let (r1, q1) = (if \<not> reader q then connect Reader (reader_ok e) q else (None, q));
            (r2, q2) = (if \<not> writer q then connect Writer (writer_ok e) q1 else (None, q1))
        in (case (r1, r2) of
              (Some err, _) \<Rightarrow> (Some err, q2)
            | (None, Some err) \<Rightarrow> (Some err, q2)
            | (None, None) \<Rightarrow>
                let q3 = (if \<not> signalsInitialized q2
                          then (act SignalHandlersInstalled q2)\<lparr>signalsInitialized := True\<rparr>
                          else q2)
                in (case initWatcher e q3 of
                      (Some err, q4) \<Rightarrow> (Some err, q4)
                    | (None, q4) \<Rightarrow>
                        let q5 = read q4;
                            q6 = (case processDelayed (clock e) (key q5) q5 of
                                    (Some err, q') \<Rightarrow>
                                      unawaited (emit (ErrorEvent err ''OnProcessDelayed'') q')
                                  | (None, q') \<Rightarrow> q')
                        in (None, q6\<lparr>initialized := True\<rparr>))))"

subsection \<open>send\<close>





subsection \<open>The profile decorator\<close>

text \<open>
  The repository holds two versions of the decorator: the one at the head of
  \<^verbatim>\<open>profile.ts\<close>, with \<^verbatim>\<open>printDebugInfo\<close>, and a later one that takes an options object,
  with \<^verbatim>\<open>logDebugInfo\<close>. Both are modelled, the later one as \<open>profile_v2\<close>.

  An argument of a call is a JSON value, an object that refers to itself, or a BigInt;
  \<^verbatim>\<open>JSON.stringify\<close> throws a TypeError on the last two. A wrapped operation returns or
  throws; what it returns is a plain value or a promise, given with the way the promise
  settles. A method is named by a string or by a symbol, and a symbol in a template
  literal throws a TypeError.
\<close>

datatype jsval = Json json | Cyclic | BigIntValue

datatype method_name = Named string | SymbolNamed

datatype 'r js_result = Plain 'r | Promise "error + 'r"

datatype 'r completion = Returned 'r | Thrown error

datatype LogLevel = LOG | INFO | WARN | ERROR

text \<open>
  A line handed to the logger: the timing line with the elapsed microseconds, the
  arguments line with the text of the arguments, or an error handed to
  \<^verbatim>\<open>logger.error\<close>. How the elapsed time is printed (\<^verbatim>\<open>IMQ_LOG_TIME_FORMAT\<close>) is not
  modelled.
\<close>

datatype log_entry =
    Executed string string int
  | CalledWith string string string
  | ErrorLogged error

datatype effect =
    Logged LogLevel log_entry
  | UnhandledRejection error
      \<comment> \<open>the promise \<^verbatim>\<open>result.then(...)\<close> returns is rejected and nobody handles it\<close>

text \<open>
  What the decorator takes from outside: the two environment flags, the values of
  \<^verbatim>\<open>mt.now()\<close> before the call and when the line is printed, and the text
  \<^verbatim>\<open>JSON.stringify\<close> makes of arguments it can serialise.
\<close>

record profile_env =
  IMQ_LOG_TIME :: bool
  IMQ_LOG_ARGS :: bool
  t_start :: int
  t_end :: int
  render :: "jsval list \<Rightarrow> string"

definition circular_error :: error where
  "circular_error = TypeError ''Converting circular structure to JSON''"

definition bigint_error :: error where
  "bigint_error = TypeError ''Do not know how to serialize a BigInt''"

definition symbol_error :: error where
  "symbol_error = TypeError ''Cannot convert a Symbol value to a string''"

text \<open>\<^verbatim>\<open>JSON.stringify(args, null, 2)\<close>.\<close>

definition stringify_args :: "profile_env \<Rightarrow> jsval list \<Rightarrow> error + string" where
  "stringify_args e args =
     (if Cyclic \<in> set args then Inl circular_error
      else if BigIntValue \<in> set args then Inl bigint_error
      else Inr (render e args))"

text \<open>
  \<^verbatim>\<open>JSON.stringify(args, replacer, 2)\<close> with the replacer of \<^verbatim>\<open>logDebugInfo\<close>: an object met
  a second time is replaced by a copy, or left out when it cannot be copied, so a cycle
  no longer throws.
\<close>

definition stringify_args_guarded :: "profile_env \<Rightarrow> jsval list \<Rightarrow> error + string" where
  "stringify_args_guarded e args =
     (if BigIntValue \<in> set args then Inl bigint_error else Inr (render e args))"

text \<open>
  \<^verbatim>\<open>printDebugInfo\<close>; the logger defaults to the console, so there always is one. The
  result is the error thrown, if any, and the effects so far.
\<close>

definition printDebugInfo ::
  "profile_env \<Rightarrow> bool \<Rightarrow> bool \<Rightarrow> string \<Rightarrow> jsval list \<Rightarrow> method_name
    \<Rightarrow> error option \<times> effect list" where
  "printDebugInfo e debugTime debugArgs className args methodName =
     (case methodName of
        SymbolNamed \<Rightarrow> (if debugTime \<or> debugArgs then Some symbol_error else None, [])
      | Named m \<Rightarrow>
          let timed = (if debugTime
                       then [Logged LOG (Executed className m (t_end e - t_start e))] else [])
          in if debugArgs then
               (case stringify_args e args of
                  Inl err \<Rightarrow> (Some err, timed)
                | Inr txt \<Rightarrow> (None, timed @ [Logged LOG (CalledWith className m txt)]))
             else (None, timed))"

text \<open>
  The function the decorator of \<^verbatim>\<open>profile.ts\<close> puts in place of \<open>original\<close>, applied to
  \<open>args\<close>. The result is what the call returns or throws and the effects of the
  decorator, among them what the callback given to \<^verbatim>\<open>result.then\<close> does once the promise
  settles.
\<close>

definition profile ::
  "profile_env \<Rightarrow> bool option \<Rightarrow> bool option \<Rightarrow> string \<Rightarrow> method_name
    \<Rightarrow> (jsval list \<Rightarrow> 'r js_result completion) \<Rightarrow> jsval list
    \<Rightarrow> 'r js_result completion \<times> effect list" where
  "profile e enableTime enableArgs className methodName original args =
     (let debugTime = (case enableTime of Some b \<Rightarrow> b | None \<Rightarrow> IMQ_LOG_TIME e);
          debugArgs = (case enableArgs of Some b \<Rightarrow> b | None \<Rightarrow> IMQ_LOG_ARGS e)
      in if \<not> (debugTime \<or> debugArgs) then (original args, [])
         else
           (case original args of
              Thrown err \<Rightarrow> (Thrown err, [])
            | Returned (Promise settled) \<Rightarrow>
                (Returned (Promise settled),
                 case settled of
                   Inl err \<Rightarrow> [UnhandledRejection err]
                 | Inr res \<Rightarrow>
                     (case printDebugInfo e debugTime debugArgs className args methodName of
                        (None, effects) \<Rightarrow> effects
                      | (Some err, effects) \<Rightarrow> effects @ [UnhandledRejection err]))
            | Returned (Plain v) \<Rightarrow>
                (case printDebugInfo e debugTime debugArgs className args methodName of
                   (None, effects) \<Rightarrow> (Returned (Plain v), effects)
                 | (Some err, effects) \<Rightarrow> (Thrown err, effects))))"

text \<open>
  \<^verbatim>\<open>logDebugInfo\<close> of the later version. The logger is \<^verbatim>\<open>(this || target).logger\<close>, with
  no default: \<open>has_logger\<close> says whether the object has one. The method name is a
  string.
\<close>

definition logDebugInfo ::
  "profile_env \<Rightarrow> bool \<Rightarrow> bool \<Rightarrow> string \<Rightarrow> jsval list \<Rightarrow> string \<Rightarrow> bool \<Rightarrow> LogLevel
    \<Rightarrow> error option \<times> effect list" where
  "logDebugInfo e debugTime debugArgs className args m has_logger level =
     (if \<not> has_logger then (Some (TypeError ''Cannot read properties of undefined''), [])
      else
        let timed = (if debugTime
                     then [Logged level (Executed className m (t_end e - t_start e))] else [])
        in if debugArgs then
             (case stringify_args_guarded e args of
                Inl err \<Rightarrow>
                  (None, timed @ [Logged ERROR (ErrorLogged err),
                                  Logged level (CalledWith className m [])])
              | Inr txt \<Rightarrow> (None, timed @ [Logged level (CalledWith className m txt)]))
           else (None, timed))"

record ProfileDecoratorOptions =
  enableDebugTime :: "bool option"
  enableDebugArgs :: "bool option"
  logLevel :: "LogLevel option"

definition profile_v2 ::
  "profile_env \<Rightarrow> ProfileDecoratorOptions \<Rightarrow> string \<Rightarrow> string \<Rightarrow> bool
    \<Rightarrow> (jsval list \<Rightarrow> 'r js_result completion) \<Rightarrow> jsval list
    \<Rightarrow> 'r js_result completion \<times> effect list" where
  "profile_v2 e opts className m has_logger original args =
     (let level = (case logLevel opts of Some l \<Rightarrow> l | None \<Rightarrow> LOG);
          debugTime = (case enableDebugTime opts of Some b \<Rightarrow> b | None \<Rightarrow> IMQ_LOG_TIME e);
          debugArgs = (case enableDebugArgs opts of Some b \<Rightarrow> b | None \<Rightarrow> IMQ_LOG_ARGS e)
      in if \<not> (debugTime \<or> debugArgs) then (original args, [])
         else
           (case original args of
              Thrown err \<Rightarrow> (Thrown err, [])
            | Returned (Promise settled) \<Rightarrow>
                (Returned (Promise settled),
                 case settled of
                   Inl err \<Rightarrow> [UnhandledRejection err]
                 | Inr res \<Rightarrow>
                     (case logDebugInfo e debugTime debugArgs className args m has_logger level of
                        (None, effects) \<Rightarrow> effects
                      | (Some err, effects) \<Rightarrow> effects @ [UnhandledRejection err]))
            | Returned (Plain v) \<Rightarrow>
                (case logDebugInfo e debugTime debugArgs className args m has_logger level of
                   (None, effects) \<Rightarrow> (Returned (Plain v), effects)
                 | (Some err, effects) \<Rightarrow> (Thrown err, effects))))"

subsection \<open>Concrete values for the examples\<close>

text \<open>
  The examples need a platform to run on. \<open>example_platform\<close> knows one envelope and its
  JSON text, frames a buffer with the two magic bytes of gzip in place of compressing
  it, and converts between bytes and code units as UTF-8 does for ASCII.
\<close>

definition units :: "string \<Rightarrow> js_string" where
  "units s = map (\<lambda>c. of_nat (of_char c)) s"

definition quoted :: "string \<Rightarrow> string" where
  "quoted s = CHR 0x22 # s @ [CHR 0x22]"

definition example_envelope :: json where
  "example_envelope = envelope ''id-1'' (JObj [(''a'', JNum 1)]) ''q''"

definition example_text :: js_string where
  "example_text =
     units (''{'' @ quoted ''id'' @ '':'' @ quoted ''id-1'' @ '','' @ quoted ''message'' @ '':{''
            @ quoted ''a'' @ '':1},'' @ quoted ''from'' @ '':'' @ quoted ''q'' @ ''}'')"

definition example_platform :: platform where
  "example_platform =
     \<lparr>JSON_stringify = (\<lambda>v. if v = example_envelope then Inr example_text
                             else Inl (TypeError ''not the example'')),
      JSON_parse = (\<lambda>s. if s = example_text then Inr example_envelope else Inl SyntaxError),
      utf8_encode = map ucast,
      utf8_decode = map ucast,
      gzip = (\<lambda>b. 31 # 139 # b),
      gunzip = (\<lambda>b. case b of
                      x # y # rest \<Rightarrow> if x = 31 \<and> y = 139 then Inr rest else Inl ZlibError
                    | _ \<Rightarrow> Inl ZlibError)\<rparr>"

definition example_start_env :: start_env where
  "example_start_env =
     \<lparr>reader_ok = True, writer_ok = True, watcher_ok = True, watchers_seen = 0,
      watchers_seen_later = 0, random = 1 / 2, clock = 1000\<rparr>"


definition example_queue :: RedisQueue where
  "example_queue = new_RedisQueue ''q'' DEFAULT_IMQ_OPTIONS Map.empty"

definition example_profile_env :: profile_env where
  "example_profile_env =
     \<lparr>IMQ_LOG_TIME = False, IMQ_LOG_ARGS = False, t_start = 100, t_end = 130,
      render = (\<lambda>args. ''[...]'')\<rparr>"

text \<open>
  A keyspace with one queue \<^verbatim>\<open>imq:q\<close>: a ready message, three delayed messages due at
  900, 1000 and 2000, and a worker list with two messages whose key expires at 2000.
\<close>

definition example_keyspace :: keyspace where
  "example_keyspace =
     Map.empty
       (''imq:q'' \<mapsto> RList [units ''m0''],
        ''imq:q:delayed'' \<mapsto> RZSet [(900, units ''d1''), (1000, units ''d2''), (2000, units ''d3'')],
        ''imq:q:worker:u1:2000'' \<mapsto> RList [units ''m1'', units ''m2''])"

text \<open>The keys \<^verbatim>\<open>processDelayed\<close> was called with, oldest first.\<close>

definition called_keys :: "action list \<Rightarrow> string list" where
  "called_keys tr = concat (map (\<lambda>a. case a of Called_processDelayed k \<Rightarrow> [k] | _ \<Rightarrow> []) tr)"

text \<open>The \<^verbatim>\<open>message\<close> events emitted, oldest first.\<close>

definition message_events :: "action list \<Rightarrow> event list" where
  "message_events tr =
     concat (map (\<lambda>a. case a of
                         Emitted (MessageEvent message ident sender) \<Rightarrow>
                           [MessageEvent message ident sender]
                       | _ \<Rightarrow> []) tr)"




section \<open>Part II: lemmas and theorems\<close>

subsection \<open>intrand stays in its range\<close>

lemma floor_scaled_unit:
  fixes r :: real and n :: int
  assumes "0 \<le> r" "r < 1" "0 < n"
  shows "0 \<le> \<lfloor>r * of_int n\<rfloor> \<and> \<lfloor>r * of_int n\<rfloor> < n"
proof -
  have n: "0 < (of_int n :: real)" using assms(3) by simp
  have lo: "0 \<le> r * of_int n" using assms(1) n by simp
  have hi: "r * of_int n < of_int n" using assms(2) n by simp
  have "0 \<le> \<lfloor>r * of_int n\<rfloor>" using lo by simp
  moreover have "\<lfloor>r * of_int n\<rfloor> < n" using hi floor_less_iff by blast
  ultimately show ?thesis by simp
qed

text \<open>
  Claim C10. With the random source any real in \<open>[0, 1)\<close> and integers \<open>mn \<le> mx\<close>,
  \<open>intrand\<close> returns an integer between \<open>mn\<close> and \<open>mx\<close>, both included; so the back-off
  delay of the watcher election, drawn as \<open>intrand 1 50\<close>, lies between 1 and 50.
\<close>

theorem intrand_in_range:
  assumes "0 \<le> rnd" and "rnd < 1"
  shows "(mn \<le> mx \<longrightarrow> mn \<le> intrand rnd mn mx \<and> intrand rnd mn mx \<le> mx)
    \<and> 1 \<le> backoff_delay rnd \<and> backoff_delay rnd \<le> 50"
proof -
  have general: "mn \<le> intrand rnd mn mx \<and> intrand rnd mn mx \<le> mx" if "mn \<le> mx"
  proof -
    from that have "0 < mx - mn + 1" by simp
    from floor_scaled_unit [OF assms this] show ?thesis
      by (simp add: intrand_def)
  qed
  have "(0::int) < 50 - 1 + 1" by simp
  from floor_scaled_unit [OF assms this]
  have "1 \<le> backoff_delay rnd \<and> backoff_delay rnd \<le> 50"
    by (simp add: backoff_delay_def intrand_def)
  with general show ?thesis by blast
qed

theorem intrand_in_range_witness:
  "(0::real) \<le> 1 / 2 \<and> (1 / 2 :: real) < 1 \<and> (3::int) \<le> 7
    \<and> 3 \<le> intrand (1 / 2) 3 7 \<and> intrand (1 / 2) 3 7 \<le> 7
    \<and> intrand (1 / 2) 3 7 = 5
    \<and> 1 \<le> backoff_delay (1 / 2) \<and> backoff_delay (1 / 2) \<le> 50"
  using intrand_in_range [of "1 / 2" 3 7]
  by (simp add: intrand_def backoff_delay_def)

subsection \<open>Splitting and joining\<close>

lemma split_on_nonempty: "split_on c s \<noteq> []"
  by (induction s) (auto split: list.splits)

lemma split_on_no_sep: "c \<notin> set a \<Longrightarrow> split_on c a = [a]"
  by (induction a) auto

lemma split_on_append: "split_on c (a @ c # b) = split_on c a @ split_on c b"
proof (induction a)
  case Nil
  then show ?case by simp
next
  case (Cons x a)
  obtain w ws where "split_on c a = w # ws"
    using split_on_nonempty [of c a] by (cases "split_on c a") auto
  with Cons show ?case by simp
qed

lemma join_split_on: "join_with [c] (split_on c s) = s"
proof (induction s)
  case Nil
  then show ?case by simp
next
  case (Cons x s)
  obtain w ws where s: "split_on c s = w # ws"
    using split_on_nonempty [of c s] by (cases "split_on c s") auto
  show ?case
  proof (cases "x = c")
    case True
    with Cons s show ?thesis by simp
  next
    case False
    with Cons s show ?thesis by (cases ws) auto
  qed
qed

lemma join_split_colon: "join_colon (split_colon s) = s"
  by (simp add: join_colon_def split_colon_def join_split_on)

lemma split_colon_nonempty: "split_colon s \<noteq> []"
  by (simp add: split_colon_def split_on_nonempty)

lemma split_colon_append: "split_colon (a @ '':'' @ b) = split_colon a @ split_colon b"
  by (simp add: split_colon_def split_on_append)

lemma split_colon_no_colon: "CHR '':'' \<notin> set a \<Longrightarrow> split_colon a = [a]"
  by (simp add: split_colon_def split_on_no_sep)

lemma join_with_snoc: "xs \<noteq> [] \<Longrightarrow> join_with sep (xs @ [y]) = join_with sep xs @ sep @ y"
  by (induction sep xs rule: join_with.induct) auto

lemma pop_snoc: "pop (xs @ [x]) = (Some x, xs)"
  by (simp add: pop_def)

subsection \<open>Numbers in keys are read back as written\<close>

lemma digit_of_digit_char: "d < 10 \<Longrightarrow> digit_of (digit_char d) = Some d"
  by (simp add: digit_of_def digit_char_def Let_def)

lemma digit_char_not_special:
  "d < 10 \<Longrightarrow> digit_char d \<noteq> CHR '':'' \<and> digit_char d \<noteq> CHR ''-'' \<and> digit_char d \<noteq> CHR ''+''"
  by (auto simp: digit_char_def char_of_eq_iff take_bit_eq_mod)

lemma digits_value_append:
  "digits_value acc (xs @ ys) =
     (case digits_value acc xs of None \<Rightarrow> None | Some v \<Rightarrow> digits_value v ys)"
  by (induction xs arbitrary: acc) (auto split: option.splits)

lemma digits_value_nat_digits: "digits_value 0 (nat_digits n) = Some n"
proof (induction n rule: nat_digits.induct)
  case (1 n)
  show ?case
  proof (cases "n < 10")
    case True
    then show ?thesis by (simp add: nat_digits.simps [of n] digit_of_digit_char)
  next
    case False
    then have "digits_value 0 (nat_digits (n div 10)) = Some (n div 10)" using 1 by simp
    with False show ?thesis
      by (simp add: nat_digits.simps [of n] digits_value_append digit_of_digit_char)
  qed
qed

lemma nat_digits_nonempty: "nat_digits n \<noteq> []"
  by (simp add: nat_digits.simps [of n])

lemma nat_digits_set: "c \<in> set (nat_digits n) \<Longrightarrow> \<exists>d<10. c = digit_char d"
proof (induction n rule: nat_digits.induct)
  case (1 n)
  show ?case
  proof (cases "n < 10")
    case True
    with 1(2) show ?thesis by (auto simp: nat_digits.simps [of n])
  next
    case False
    from 1(2) False have "c \<in> set (nat_digits (n div 10)) \<or> c = digit_char (n mod 10)"
      by (auto simp: nat_digits.simps [of n])
    then show ?thesis using 1(1) [OF False] by (metis mod_less_divisor zero_less_numeral)
  qed
qed

lemma unsigned_value_nat_digits: "unsigned_value (nat_digits n) = Some n"
  by (simp add: unsigned_value_def nat_digits_nonempty digits_value_nat_digits)

lemma js_Number_int_to_string: "js_Number (Some (int_to_string i)) = Finite i"
proof (cases "i < 0")
  case True
  then show ?thesis by (simp add: js_Number_def int_to_string_def unsigned_value_nat_digits)
next
  case False
  obtain c cs where d: "nat_digits (nat i) = c # cs"
    using nat_digits_nonempty [of "nat i"] by (cases "nat_digits (nat i)") auto
  then have "c \<in> set (nat_digits (nat i))" by simp
  then obtain k where "k < 10" "c = digit_char k" using nat_digits_set by blast
  then have c: "c \<noteq> CHR ''-''" "c \<noteq> CHR ''+''" using digit_char_not_special by auto
  have "unsigned_value (c # cs) = Some (nat i)"
    using unsigned_value_nat_digits [of "nat i"] d by simp
  with False c d show ?thesis by (simp add: js_Number_def int_to_string_def)
qed

lemma nat_digits_no_colon: "CHR '':'' \<notin> set (nat_digits n)"
proof
  assume "CHR '':'' \<in> set (nat_digits n)"
  then obtain d where "d < 10" "CHR '':'' = digit_char d" using nat_digits_set by blast
  then show False using digit_char_not_special [of d] by simp
qed

lemma int_to_string_no_colon: "CHR '':'' \<notin> set (int_to_string i)"
  by (simp add: int_to_string_def nat_digits_no_colon)

subsection \<open>The sweeper moves back what has not expired\<close>

lemma join_colon_two_more:
  "rest \<noteq> [] \<Longrightarrow> \<exists>t. join_colon (a # b # rest) = a @ '':'' @ b @ '':'' @ t"
  by (cases rest) (auto simp: join_colon_def)

text \<open>
  The segments of a worker key, for a prefix and a queue name without a colon: the
  prefix, the queue name, \<^verbatim>\<open>worker\<close>, the segments of the worker id, the expiry time.
\<close>

lemma workerKey_segments:
  assumes "CHR '':'' \<notin> set pfx" and "CHR '':'' \<notin> set qname"
  shows "split_colon (workerKey (pfx @ '':'' @ qname) wid expire) =
           pfx # qname # (''worker'' # split_colon wid) @ [int_to_string expire]"
proof -
  have "workerKey (pfx @ '':'' @ qname) wid expire =
          pfx @ '':'' @ (qname @ '':'' @ (''worker'' @ '':'' @ (wid @ '':'' @ int_to_string expire)))"
    by (simp add: workerKey_def)
  then show ?thesis
    using assms
    by (simp only: split_colon_append)
       (simp add: split_colon_no_colon int_to_string_no_colon)
qed

text \<open>The command the sweeper issues for a key whose last segment is a time.\<close>

lemma sweep_key_command:
  assumes "split_colon wk = a # b # mid @ [int_to_string expire]"
  shows "sweep_key now wk kspace =
     (if now \<le> expire
      then (case redis_rpoplpush wk (a @ '':'' @ b) kspace of
              Inl e \<Rightarrow> Inl e | Inr (_, kspace') \<Rightarrow> Inr kspace')
      else Inr kspace)"
proof -
  have "pop (split_colon wk) = (Some (int_to_string expire), a # b # mid)"
    using assms pop_snoc [of "a # b # mid" "int_to_string expire"] by simp
  then show ?thesis
    by (simp add: sweep_key_def Let_def js_Number_int_to_string js_ge_def shift_def interpolate_def)
qed

text \<open>The keys of a page are handled one after the other, until one fails.\<close>

lemma sweep_keys_append:
  "sweep_keys now (ks @ ks') kspace =
     (case sweep_keys now ks kspace of
        (Some e, kspace') \<Rightarrow> (Some e, kspace')
      | (None, kspace') \<Rightarrow> sweep_keys now ks' kspace')"
  by (induction ks arbitrary: kspace) (auto split: sum.splits)

text \<open>What the sweeper does to the keyspace for one such key.\<close>

lemma sweep_key_effect:
  assumes segs: "split_colon wk = a # b # mid @ [int_to_string expire]"
    and worker: "kspace wk = Some (RList (xs @ [x]))"
    and parent: "list_at kspace (a @ '':'' @ b) = Some ys"
  shows "sweep_key now wk kspace =
     Inr (if now \<le> expire
          then (store_list wk xs kspace)(a @ '':'' @ b \<mapsto> RList (x # ys))
          else kspace)"
proof -
  have "wk = join_colon (a # b # mid @ [int_to_string expire])"
    using join_split_colon [of wk] segs by simp
  then obtain t where "wk = a @ '':'' @ b @ '':'' @ t"
    using join_colon_two_more [of "mid @ [int_to_string expire]" a b] by auto
  then have ne: "wk \<noteq> a @ '':'' @ b" by simp
  have dst: "kspace (a @ '':'' @ b) = None \<and> ys = [] \<or> kspace (a @ '':'' @ b) = Some (RList ys)"
    using parent by (auto simp: list_at_def split: option.splits rvalue.splits)
  have "redis_rpoplpush wk (a @ '':'' @ b) kspace =
          Inr (Some x, (store_list wk xs kspace)(a @ '':'' @ b \<mapsto> RList (x # ys)))"
    using worker dst ne
    by (auto simp: redis_rpoplpush_def store_list_def Let_def)
  then show ?thesis by (simp add: sweep_key_command [OF segs])
qed

text \<open>
  Claim C1. In a sweep with clock value \<open>now\<close>, take a scanned key \<open>wk\<close> whose segments
  are \<open>a\<close>, \<open>b\<close>, any further ones, and last the expiry time \<open>expire\<close> (a worker key
  \<^verbatim>\<open><prefix>:<queueName>:worker:<uuid>:<expireMs>\<close> is such a key, by
  \<open>workerKey_segments\<close>). The sweeper issues RPOPLPUSH from \<open>wk\<close> to the key made of the
  first two segments, \<open>a:b\<close>, if \<open>now \<le> expire\<close>, and does nothing otherwise. So when
  \<open>wk\<close> holds a list whose tail is \<open>x\<close> and \<open>a:b\<close> holds a list (or nothing), \<open>x\<close> is
  moved from the worker list to the head of the list at \<open>a:b\<close> if \<open>now \<le> expire\<close>, and
  the keyspace stays as it is otherwise. This holds wherever the key stands in a page:
  when the keys before it have been handled and left the keyspace \<open>kspace\<close>, the loop
  goes on with the keys after it from the keyspace so changed.
\<close>

theorem sweeper_moves_unexpired:
  assumes segs: "split_colon wk = a # b # mid @ [int_to_string expire]"
  shows "sweep_key now wk kspace =
       (if now \<le> expire
        then (case redis_rpoplpush wk (a @ '':'' @ b) kspace of
                Inl e \<Rightarrow> Inl e | Inr (_, kspace') \<Rightarrow> Inr kspace')
        else Inr kspace)
    \<and> (kspace wk = Some (RList (xs @ [x])) \<and> list_at kspace (a @ '':'' @ b) = Some ys \<longrightarrow>
         sweep_key now wk kspace =
           Inr (if now \<le> expire
                then (store_list wk xs kspace)(a @ '':'' @ b \<mapsto> RList (x # ys))
                else kspace)
         \<and> (sweep_keys now before kspace0 = (None, kspace) \<longrightarrow>
              sweep_keys now (before @ wk # after) kspace0 =
                sweep_keys now after
                  (if now \<le> expire
                   then (store_list wk xs kspace)(a @ '':'' @ b \<mapsto> RList (x # ys))
                   else kspace)))"
proof -
  have effect: "sweep_key now wk kspace =
           Inr (if now \<le> expire
                then (store_list wk xs kspace)(a @ '':'' @ b \<mapsto> RList (x # ys))
                else kspace)"
    if "kspace wk = Some (RList (xs @ [x]))" "list_at kspace (a @ '':'' @ b) = Some ys"
    using sweep_key_effect [OF segs that, of now] .
  have loop: "sweep_keys now (before @ wk # after) kspace0 =
                sweep_keys now after
                  (if now \<le> expire
                   then (store_list wk xs kspace)(a @ '':'' @ b \<mapsto> RList (x # ys))
                   else kspace)"
    if "kspace wk = Some (RList (xs @ [x]))" "list_at kspace (a @ '':'' @ b) = Some ys"
       "sweep_keys now before kspace0 = (None, kspace)"
    using effect [OF that(1,2)] that(3) by (simp add: sweep_keys_append)
  from sweep_key_command [OF segs, of now kspace] effect loop show ?thesis by simp
qed

theorem sweeper_moves_unexpired_witness:
  "split_colon ''imq:q:worker:u1:2000'' = ''imq'' # ''q'' # [''worker'', ''u1''] @ [int_to_string 2000]
   \<and> example_keyspace ''imq:q:worker:u1:2000'' = Some (RList ([units ''m1''] @ [units ''m2'']))
   \<and> list_at example_keyspace (''imq'' @ '':'' @ ''q'') = Some [units ''m0'']
   \<and> sweep_key 1500 ''imq:q:worker:u1:2000'' example_keyspace =
        Inr ((store_list ''imq:q:worker:u1:2000'' [units ''m1''] example_keyspace)
               (''imq:q'' \<mapsto> RList [units ''m2'', units ''m0'']))
   \<and> sweep_key 2500 ''imq:q:worker:u1:2000'' example_keyspace = Inr example_keyspace
   \<and> sweep_keys 1500 [] example_keyspace = (None, example_keyspace)
   \<and> sweep_keys 1500 ([] @ ''imq:q:worker:u1:2000'' # []) example_keyspace =
        (None, (store_list ''imq:q:worker:u1:2000'' [units ''m1''] example_keyspace)
               (''imq:q'' \<mapsto> RList [units ''m2'', units ''m0'']))"
proof -
  have h1: "split_colon ''imq:q:worker:u1:2000'' =
      ''imq'' # ''q'' # [''worker'', ''u1''] @ [int_to_string 2000]"
    by code_simp
  have h2: "example_keyspace ''imq:q:worker:u1:2000'' = Some (RList ([units ''m1''] @ [units ''m2'']))"
    by (simp add: example_keyspace_def)
  have h3: "list_at example_keyspace (''imq'' @ '':'' @ ''q'') = Some [units ''m0'']"
    by (simp add: example_keyspace_def list_at_def)
  have h4: "sweep_keys 1500 [] example_keyspace = (None, example_keyspace)" by simp
  note t = sweeper_moves_unexpired [OF h1, where kspace = example_keyspace
      and xs = "[units ''m1'']" and x = "units ''m2''" and ys = "[units ''m0'']"
      and before = "[]" and kspace0 = example_keyspace and after = "[]"]
  have h23: "example_keyspace ''imq:q:worker:u1:2000'' = Some (RList ([units ''m1''] @ [units ''m2'']))
      \<and> list_at example_keyspace (''imq'' @ '':'' @ ''q'') = Some [units ''m0'']"
    using h2 h3 by (rule conjI)
  note live = t [of 1500, THEN conjunct2, THEN mp, OF h23]
  note dead = t [of 2500, THEN conjunct2, THEN mp, OF h23]
  note moved = live [THEN conjunct2, THEN mp, OF h4]
  from live [THEN conjunct1] dead [THEN conjunct1] moved h1 h2 h3 h4
  show ?thesis by simp
qed

subsection \<open>moveDelayed moves what is due\<close>

lemma lpush_each_list:
  "list_at kspace k = Some xs \<Longrightarrow>
   lpush_each k ms kspace = (None, if ms = [] then kspace else kspace(k \<mapsto> RList (rev ms @ xs)))"
proof (induction ms arbitrary: kspace xs)
  case Nil
  then show ?case by simp
next
  case (Cons m ms)
  let ?next = "kspace(k \<mapsto> RList (m # xs))"
  from Cons.prems have step: "redis_lpush k m kspace = Inr (Suc (length xs), ?next)"
    by (auto simp: list_at_def redis_lpush_def split: option.splits rvalue.splits)
  have l': "list_at ?next k = Some (m # xs)" by (simp add: list_at_def)
  have "lpush_each k (m # ms) kspace = lpush_each k ms ?next" by (simp add: step)
  also have "\<dots> = (None, if ms = [] then ?next else ?next(k \<mapsto> RList (rev ms @ m # xs)))"
    by (rule Cons.IH [OF l'])
  also have "\<dots> = (None, if m # ms = [] then kspace else kspace(k \<mapsto> RList (rev (m # ms) @ xs)))"
    by simp
  finally show ?case .
qed

text \<open>
  Claim C2. Run on a sorted set \<open>zs\<close> at \<open>zkey\<close> and a list \<open>xs\<close> at \<open>lkey\<close> with the
  argument \<open>now\<close>, the script takes the members whose score is at most \<open>now\<close>, in the
  order of the set, pushes each in turn on the head of the list (so they stand there in
  reverse, before \<open>xs\<close>), removes them from the sorted set (which goes away when nothing
  is left) and returns how many they are. When no member is due it returns 0 and the
  keyspace is as before. The script is one function on the keyspace: nothing runs in
  between its commands.
\<close>

theorem moveDelayed_moves_due:
  assumes "zset_at kspace zkey = Some zs" and "list_at kspace lkey = Some xs"
  shows "moveDelayed zkey lkey now kspace =
     (let due = filter (\<lambda>m. fst m \<le> now) zs;
          keep = filter (\<lambda>m. \<not> fst m \<le> now) zs
      in if due = [] then (Inr 0, kspace)
         else (Inr (length due),
               (kspace(lkey \<mapsto> RList (rev (map snd due) @ xs)))
                 (zkey := if keep = [] then None else Some (RZSet keep))))"
proof (cases "filter (\<lambda>m. fst m \<le> now) zs = []")
  case True
  with assms(1) show ?thesis
    by (auto simp: moveDelayed_def redis_zrangebyscore_def zset_at_def Let_def
        split: option.splits rvalue.splits)
next
  case False
  then have "zs \<noteq> []" by auto
  with assms(1) have z: "kspace zkey = Some (RZSet zs)"
    by (auto simp: zset_at_def split: option.splits rvalue.splits)
  with assms(2) have ne: "lkey \<noteq> zkey"
    by (auto simp: list_at_def split: option.splits rvalue.splits)
  let ?due = "filter (\<lambda>m. fst m \<le> now) zs"
  let ?pushed = "kspace(lkey \<mapsto> RList (rev (map snd ?due) @ xs))"
  have range: "redis_zrangebyscore zkey now kspace = Inr (map snd ?due)"
    using z by (simp add: redis_zrangebyscore_def)
  have push: "lpush_each lkey (map snd ?due) kspace = (None, ?pushed)"
    using lpush_each_list [OF assms(2), of "map snd ?due"] False by simp
  have z1: "?pushed zkey = Some (RZSet zs)" using z ne by simp
  show ?thesis
    using False ne z1
    by (simp add: moveDelayed_def range push redis_zremrangebyscore_def Let_def fun_upd_twist)
qed

theorem moveDelayed_moves_due_witness:
  "zset_at example_keyspace ''imq:q:delayed'' =
      Some [(900, units ''d1''), (1000, units ''d2''), (2000, units ''d3'')]
   \<and> list_at example_keyspace ''imq:q'' = Some [units ''m0'']
   \<and> moveDelayed ''imq:q:delayed'' ''imq:q'' 1000 example_keyspace =
        (Inr 2,
         (example_keyspace(''imq:q'' \<mapsto> RList [units ''d2'', units ''d1'', units ''m0'']))
           (''imq:q:delayed'' \<mapsto> RZSet [(2000, units ''d3'')]))
   \<and> moveDelayed ''imq:q:delayed'' ''imq:q'' 500 example_keyspace = (Inr 0, example_keyspace)"
proof -
  have h1: "zset_at example_keyspace ''imq:q:delayed'' =
      Some [(900, units ''d1''), (1000, units ''d2''), (2000, units ''d3'')]"
    by (simp add: example_keyspace_def zset_at_def)
  have h2: "list_at example_keyspace ''imq:q'' = Some [units ''m0'']"
    by (simp add: example_keyspace_def list_at_def)
  from moveDelayed_moves_due [OF h1 h2, of 1000] moveDelayed_moves_due [OF h1 h2, of 500] h1 h2
  show ?thesis by simp
qed

lemma processDelayed_runs_script:
  "checksum q \<Longrightarrow> writer q \<Longrightarrow>
   db (snd (processDelayed now k q)) = snd (moveDelayed (k @ '':delayed'') k now (db q))"
  by (simp add: processDelayed_def act_def Let_def split: prod.splits sum.splits)

subsection \<open>The handler of expired keys\<close>

lemma pop_eq: "xs \<noteq> [] \<Longrightarrow> pop xs = (Some (last xs), butlast xs)"
  by (simp add: pop_def)

lemma let_pop_rest: "(let (u, rest) = pop xs in f rest) = f (butlast xs)"
  by (simp add: pop_def)

lemma ttl_key_segments:
  assumes "CHR '':'' \<notin> set ident"
  shows "split_colon (k @ '':'' @ ident @ '':ttl'') = split_colon k @ [ident, ''ttl'']"
proof -
  have "k @ '':'' @ ident @ '':ttl'' = k @ '':'' @ (ident @ '':'' @ ''ttl'')" by simp
  then show ?thesis
    using assms by (simp only: split_colon_append) (simp add: split_colon_no_colon)
qed

lemma on_pmessage_unfolded:
  "on_pmessage now (args @ [a]) q =
     (if last (split_colon a) = ''ttl''
      then (case processDelayed now (join_colon (butlast (butlast (split_colon a)))) q of
              (None, q') \<Rightarrow> q'
            | (Some err, q') \<Rightarrow> unawaited (emit (ErrorEvent err ''OnWatch'') q'))
      else q)"
  by (simp add: on_pmessage_def pop_snoc pop_eq split_colon_nonempty let_pop_rest)

lemma called_keys_append [simp]: "called_keys (xs @ ys) = called_keys xs @ called_keys ys"
  by (simp add: called_keys_def)

lemma called_keys_emit: "called_keys (trace (snd (emit ev q))) = called_keys (trace q)"
  by (cases ev) (simp_all add: emit_def Let_def act_def called_keys_def)

lemma called_keys_unawaited: "called_keys (trace (unawaited r)) = called_keys (trace (snd r))"
  by (cases r) (simp add: unawaited_def act_def called_keys_def split: option.splits)

lemma called_keys_processDelayed:
  "called_keys (trace (snd (processDelayed now k q))) = called_keys (trace q) @ [k]"
  by (simp add: processDelayed_def act_def Let_def called_keys_def split: prod.splits sum.splits)

text \<open>
  Claim C5. On a \<^verbatim>\<open>pmessage\<close> event whose last argument is the expired key \<open>a\<close>, the
  handler calls \<^verbatim>\<open>processDelayed\<close> exactly when the last segment of \<open>a\<close> is \<^verbatim>\<open>ttl\<close>,
  once, with the segments of \<open>a\<close> but the last two joined again; when the last segment
  is something else the handler does nothing at all. For the key
  \<^verbatim>\<open><list key>:<id>:ttl\<close> of a delayed message, with an id that holds no colon, the key
  passed on is the list key.
\<close>

theorem pmessage_ttl_dispatch:
  "called_keys (trace (on_pmessage now (args @ [a]) q)) =
     called_keys (trace q)
       @ (if last (split_colon a) = ''ttl''
          then [join_colon (butlast (butlast (split_colon a)))] else [])
   \<and> (last (split_colon a) \<noteq> ''ttl'' \<longrightarrow> on_pmessage now (args @ [a]) q = q)
   \<and> (CHR '':'' \<notin> set ident \<longrightarrow>
        last (split_colon (k @ '':'' @ ident @ '':ttl'')) = ''ttl''
        \<and> join_colon (butlast (butlast (split_colon (k @ '':'' @ ident @ '':ttl'')))) = k)"
proof -
  have calls: "called_keys (trace (on_pmessage now (args @ [a]) q)) =
     called_keys (trace q)
       @ (if last (split_colon a) = ''ttl''
          then [join_colon (butlast (butlast (split_colon a)))] else [])"
  proof (cases "last (split_colon a) = ''ttl''")
    case True
    let ?k = "join_colon (butlast (butlast (split_colon a)))"
    obtain r q' where p: "processDelayed now ?k q = (r, q')" by (cases "processDelayed now ?k q")
    then have "called_keys (trace q') = called_keys (trace q) @ [?k]"
      using called_keys_processDelayed [of now ?k q] by simp
    with True p show ?thesis
      by (cases r) (simp_all add: on_pmessage_unfolded called_keys_unawaited called_keys_emit)
  next
    case False
    then show ?thesis by (simp add: on_pmessage_unfolded)
  qed
  have shape: "last (split_colon (k @ '':'' @ ident @ '':ttl'')) = ''ttl''
        \<and> join_colon (butlast (butlast (split_colon (k @ '':'' @ ident @ '':ttl'')))) = k"
    if "CHR '':'' \<notin> set ident"
  proof -
    have "butlast (butlast (split_colon k @ [ident, ''ttl''])) = split_colon k"
      by (simp add: butlast_append)
    then show ?thesis
      using ttl_key_segments [OF that, of k] by (simp add: join_split_colon)
  qed
  have nothing': "last (split_colon a) \<noteq> ''ttl'' \<longrightarrow> on_pmessage now (args @ [a]) q = q"
  proof
    assume "last (split_colon a) \<noteq> ''ttl''"
    then show "on_pmessage now (args @ [a]) q = q" by (simp add: on_pmessage_unfolded)
  qed
  have shape': "CHR '':'' \<notin> set ident \<longrightarrow>
        last (split_colon (k @ '':'' @ ident @ '':ttl'')) = ''ttl''
        \<and> join_colon (butlast (butlast (split_colon (k @ '':'' @ ident @ '':ttl'')))) = k"
  proof
    assume "CHR '':'' \<notin> set ident"
    then show "last (split_colon (k @ '':'' @ ident @ '':ttl'')) = ''ttl''
        \<and> join_colon (butlast (butlast (split_colon (k @ '':'' @ ident @ '':ttl'')))) = k"
      by (rule shape)
  qed
  show ?thesis by (rule conjI [OF calls conjI [OF nothing' shape']])
qed

theorem pmessage_ttl_dispatch_witness:
  "CHR '':'' \<notin> set ''id-1''
   \<and> last (split_colon ''imq:q:id-1:ttl'') = ''ttl''
   \<and> called_keys (trace (on_pmessage 1000
         ([''__keyevent@0__:expired'', ''__keyevent@0__:expired''] @ [''imq:q:id-1:ttl''])
         example_queue)) = [''imq:q'']
   \<and> last (split_colon ''imq:q:delayed'') \<noteq> ''ttl''
   \<and> on_pmessage 1000
         ([''__keyevent@0__:expired'', ''__keyevent@0__:expired''] @ [''imq:q:delayed''])
         example_queue = example_queue"
proof -
  have h1: "CHR '':'' \<notin> set ''id-1''" by simp
  have h2: "last (split_colon ''imq:q:delayed'') \<noteq> ''ttl''" by code_simp
  have h3: "called_keys (trace example_queue) = []"
    by (simp add: example_queue_def new_RedisQueue_def called_keys_def)
  from pmessage_ttl_dispatch [of 1000 "[''__keyevent@0__:expired'', ''__keyevent@0__:expired'']"
        "''imq:q'' @ '':'' @ ''id-1'' @ '':ttl''" example_queue "''id-1''" "''imq:q''"]
       pmessage_ttl_dispatch [of 1000 "[''__keyevent@0__:expired'', ''__keyevent@0__:expired'']"
        "''imq:q:delayed''" example_queue "''id-1''" "''imq:q''"]
       h1 h2 h3
  show ?thesis by simp
qed

subsection \<open>The codec gives back what it was given\<close>

lemma ucast_byte_unit: "ucast (ucast (b :: 8 word) :: 16 word) = b"
  by (simp add: ucast_up_ucast_id is_up)

text \<open>A buffer survives the \<^verbatim>\<open>'binary'\<close> encoding: the step \<^verbatim>\<open>pack\<close> and \<^verbatim>\<open>unpack\<close> add.\<close>

lemma binary_round_trip: "Buffer_from_binary (Buffer_toString_binary b) = b"
  by (simp add: Buffer_from_binary_def Buffer_toString_binary_def ucast_byte_unit map_idI)

text \<open>
  Claim C4. Let \<open>x\<close> be a value the platform can represent in JSON: \<^verbatim>\<open>JSON.stringify\<close>
  gives a text \<open>s\<close> that \<^verbatim>\<open>JSON.parse\<close> reads back as \<open>x\<close>, \<^verbatim>\<open>gunzipSync\<close> undoes
  \<^verbatim>\<open>gzipSync\<close> on the bytes of \<open>s\<close>, and those bytes decode to \<open>s\<close> again. Then unpacking
  the packed form of \<open>x\<close> gives \<open>x\<close>, with the gzip codec and with the codec the
  constructor selects for either value of \<^verbatim>\<open>useGzip\<close>.
\<close>

theorem codec_round_trip:
  assumes "JSON_stringify P x = Inr s"
    and "JSON_parse P s = Inr x"
    and "gunzip P (gzip P (utf8_encode P s)) = Inr (utf8_encode P s)"
    and "utf8_decode P (utf8_encode P s) = s"
  shows "(\<exists>packet. pack P x = Inr packet \<and> unpack P packet = Inr x)
    \<and> (\<exists>packet. queue_pack P opts x = Inr packet \<and> queue_unpack P opts packet = Inr x)"
  using assms
  by (cases "useGzip opts")
     (simp_all add: queue_pack_def queue_unpack_def pack_def unpack_def binary_round_trip)

theorem codec_round_trip_witness:
  "JSON_stringify example_platform example_envelope = Inr example_text
   \<and> JSON_parse example_platform example_text = Inr example_envelope
   \<and> gunzip example_platform (gzip example_platform (utf8_encode example_platform example_text))
       = Inr (utf8_encode example_platform example_text)
   \<and> utf8_decode example_platform (utf8_encode example_platform example_text) = example_text
   \<and> (\<exists>packet. pack example_platform example_envelope = Inr packet
         \<and> unpack example_platform packet = Inr example_envelope)
   \<and> (\<exists>packet. queue_pack example_platform (DEFAULT_IMQ_OPTIONS\<lparr>useGzip := True\<rparr>) example_envelope
           = Inr packet
         \<and> queue_unpack example_platform (DEFAULT_IMQ_OPTIONS\<lparr>useGzip := True\<rparr>) packet
           = Inr example_envelope)
   \<and> (\<exists>packet. queue_pack example_platform DEFAULT_IMQ_OPTIONS example_envelope = Inr packet
         \<and> queue_unpack example_platform DEFAULT_IMQ_OPTIONS packet = Inr example_envelope)"
proof -
  have h1: "JSON_stringify example_platform example_envelope = Inr example_text"
    by (simp add: example_platform_def)
  have h2: "JSON_parse example_platform example_text = Inr example_envelope"
    by (simp add: example_platform_def)
  have h3: "gunzip example_platform (gzip example_platform (utf8_encode example_platform example_text))
       = Inr (utf8_encode example_platform example_text)"
    by (simp add: example_platform_def)
  have h4: "utf8_decode example_platform (utf8_encode example_platform example_text) = example_text"
    by code_simp
  from codec_round_trip [OF h1 h2 h3 h4, of "DEFAULT_IMQ_OPTIONS\<lparr>useGzip := True\<rparr>"]
       codec_round_trip [OF h1 h2 h3 h4, of DEFAULT_IMQ_OPTIONS] h1 h2 h3 h4
  show ?thesis by blast
qed

subsection \<open>process\<close>



lemma message_events_append [simp]:
  "message_events (xs @ ys) = message_events xs @ message_events ys"
  by (simp add: message_events_def)







subsection \<open>start\<close>

text \<open>No operation changes the name or the options of the queue.\<close>

lemma static_act [simp]: "name (act a q) = name q" "options (act a q) = options q"
  by (simp_all add: act_def)

lemma static_emit_snd [simp]:
  "name (snd (emit ev q)) = name q" "options (snd (emit ev q)) = options q"
  by (cases ev; simp add: emit_def Let_def)+

lemma static_emit:
  "emit ev q = (r, q') \<Longrightarrow> name q' = name q \<and> options q' = options q"
  using static_emit_snd [of ev q] by simp

lemma static_unawaited [simp]:
  "name (unawaited r) = name (snd r)" "options (unawaited r) = options (snd r)"
  by (cases r; simp add: unawaited_def split: option.splits)+

lemma static_connect:
  "connect ch ok q = (r, q') \<Longrightarrow> name q' = name q \<and> options q' = options q"
  by (auto simp: connect_def set_channel_def Let_def split: channel.splits if_splits)

lemma static_watch:
  "watch q = (r, q') \<Longrightarrow> name q' = name q \<and> options q' = options q"
  by (auto simp: watch_def Let_def split: prod.splits option.splits if_splits
      dest!: static_emit)

lemma static_ownWatch:
  "ownWatch ok q = (r, q') \<Longrightarrow> name q' = name q \<and> options q' = options q"
  by (auto simp: ownWatch_def Let_def split: prod.splits option.splits if_splits
      dest!: static_connect static_watch)

lemma static_initWatcher:
  "initWatcher e q = (r, q') \<Longrightarrow> name q' = name q \<and> options q' = options q"
  by (auto simp: initWatcher_def Let_def split: prod.splits option.splits if_splits
      dest!: static_ownWatch)

lemma static_read [simp]: "name (read q) = name q" "options (read q) = options q"
  by (simp_all add: read_def)

lemma static_processDelayed:
  "processDelayed now k q = (r, q') \<Longrightarrow> name q' = name q \<and> options q' = options q"
  by (auto simp: processDelayed_def Let_def split: prod.splits sum.splits if_splits)

lemma static_start:
  "start e q = (r, q') \<Longrightarrow> name q' = name q \<and> options q' = options q"
  by (auto simp: start_def Let_def split: prod.splits option.splits if_splits
      dest!: static_connect static_initWatcher static_processDelayed static_emit)

text \<open>A start that succeeds leaves the queue initialized.\<close>

lemma start_success:
  assumes "start e q = (None, q1)"
  shows "initialized q1 \<and> name q1 = name q"
proof (cases "name q = [] \<or> initialized q")
  case True
  with assms show ?thesis by (auto simp: start_def split: if_splits)
next
  case False
  with assms have "initialized q1"
    by (auto simp: start_def Let_def split: prod.splits option.splits if_splits)
  with static_start [OF assms] show ?thesis by simp
qed

text \<open>
  Claim C8. On a queue with a name, when \<^verbatim>\<open>start()\<close> has succeeded and left the state
  \<open>q1\<close>, a second \<^verbatim>\<open>start()\<close> succeeds and leaves exactly \<open>q1\<close>, whatever the outside
  would answer: no client is created, no action is added to the trace, the keyspace is
  not written. On a queue without a name \<^verbatim>\<open>start()\<close> is rejected with the TypeError
  and changes nothing.
\<close>

theorem start_idempotent:
  "(name q \<noteq> [] \<and> start e q = (None, q1) \<longrightarrow> start e' q1 = (None, q1))
   \<and> (name q = [] \<longrightarrow> start e q = (Some (TypeError '': No queue name provided!''), q))"
proof -
  have "start e' q1 = (None, q1)" if "name q \<noteq> []" "start e q = (None, q1)"
    using start_success [OF that(2)] that(1) by (simp add: start_def)
  moreover have "start e q = (Some (TypeError '': No queue name provided!''), q)" if "name q = []"
    using that by (simp add: start_def)
  ultimately show ?thesis by blast
qed

theorem start_idempotent_witness:
  "name example_queue \<noteq> []
   \<and> start example_start_env example_queue = (None, snd (start example_start_env example_queue))
   \<and> trace (snd (start example_start_env example_queue)) =
       [CreateClient Reader, CreateClient Writer, SignalHandlersInstalled, ScriptsLoading,
        CreateClient Watcher, ConfigSet, PmessageHandlerInstalled, Subscribed,
        ReadLoopStarted False, Called_processDelayed ''imq:q'']
   \<and> start (example_start_env\<lparr>reader_ok := False, writer_ok := False\<rparr>)
        (snd (start example_start_env example_queue))
       = (None, snd (start example_start_env example_queue))
   \<and> name (new_RedisQueue [] DEFAULT_IMQ_OPTIONS Map.empty) = []
   \<and> start example_start_env (new_RedisQueue [] DEFAULT_IMQ_OPTIONS Map.empty)
       = (Some (TypeError '': No queue name provided!''),
          new_RedisQueue [] DEFAULT_IMQ_OPTIONS Map.empty)"
proof -
  have h1: "name example_queue \<noteq> []"
    by (simp add: example_queue_def new_RedisQueue_def)
  have "fst (start example_start_env example_queue) = None" by code_simp
  then have h2: "start example_start_env example_queue
      = (None, snd (start example_start_env example_queue))"
    by (simp add: prod_eq_iff)
  have h3: "trace (snd (start example_start_env example_queue)) =
       [CreateClient Reader, CreateClient Writer, SignalHandlersInstalled, ScriptsLoading,
        CreateClient Watcher, ConfigSet, PmessageHandlerInstalled, Subscribed,
        ReadLoopStarted False, Called_processDelayed ''imq:q'']"
    by code_simp
  have h4: "name (new_RedisQueue [] DEFAULT_IMQ_OPTIONS Map.empty) = []"
    by (simp add: new_RedisQueue_def)
  from start_idempotent [of example_queue example_start_env
         "snd (start example_start_env example_queue)"
         "example_start_env\<lparr>reader_ok := False, writer_ok := False\<rparr>"]
       start_idempotent [of "new_RedisQueue [] DEFAULT_IMQ_OPTIONS Map.empty" example_start_env
         "snd (start example_start_env example_queue)" example_start_env]
       h1 h2 h3 h4
  show ?thesis by simp
qed

subsection \<open>send: where the envelope goes\<close>





subsection \<open>send: what it returns\<close>






subsection \<open>The profile decorator\<close>

text \<open>What holds of the decorator of \<^verbatim>\<open>profile.ts\<close>, for every operation and argument list.\<close>

lemma profile_disabled:
  "(case enableTime of Some b \<Rightarrow> b | None \<Rightarrow> IMQ_LOG_TIME e) = False \<Longrightarrow>
   (case enableArgs of Some b \<Rightarrow> b | None \<Rightarrow> IMQ_LOG_ARGS e) = False \<Longrightarrow>
   profile e enableTime enableArgs className methodName original args = (original args, [])"
  by (simp add: profile_def)

lemma profile_throw_propagates:
  "original args = Thrown err \<Longrightarrow>
   profile e enableTime enableArgs className methodName original args = (Thrown err, [])"
  by (simp add: profile_def Let_def)

lemma profile_promise_returned:
  "original args = Returned (Promise settled) \<Longrightarrow>
   fst (profile e enableTime enableArgs className methodName original args)
     = Returned (Promise settled)"
  by (simp add: profile_def Let_def)

lemma profile_plain_when_serialisable:
  "original args = Returned (Plain v) \<Longrightarrow>
   Cyclic \<notin> set args \<Longrightarrow> BigIntValue \<notin> set args \<Longrightarrow>
   fst (profile e enableTime enableArgs className (Named m) original args) = Returned (Plain v)"
  by (simp add: profile_def Let_def printDebugInfo_def stringify_args_def split: prod.splits)

text \<open>
  The later version returns or throws what the operation does, for every argument list,
  when the object has a logger; without one it throws.
\<close>

lemma profile_v2_with_logger:
  "fst (profile_v2 e opts className m True original args) = original args"
  by (cases "original args")
     (auto simp: profile_v2_def Let_def logDebugInfo_def split: js_result.splits sum.splits)

lemma profile_v2_on_cyclic_args:
  "profile_v2 example_profile_env
     \<lparr>enableDebugTime = None, enableDebugArgs = Some True, logLevel = None\<rparr>
     ''MyClass'' ''myMethod'' True (\<lambda>args. Returned (Plain (1::nat))) [Cyclic]
   = (Returned (Plain 1), [Logged LOG (CalledWith ''MyClass'' ''myMethod'' ''[...]'')])"
  by (simp add: profile_v2_def logDebugInfo_def stringify_args_guarded_def example_profile_env_def)

lemma profile_v2_without_logger:
  "profile_v2 example_profile_env
     \<lparr>enableDebugTime = Some True, enableDebugArgs = None, logLevel = None\<rparr>
     ''MyClass'' ''myMethod'' False (\<lambda>args. Returned (Plain (1::nat))) []
   = (Thrown (TypeError ''Cannot read properties of undefined''), [])"
  by (simp add: profile_v2_def logDebugInfo_def example_profile_env_def)

text \<open>
  Claim C9 says that the decorator never alters what the wrapped operation returns or
  throws, for every argument list. The decorator of \<^verbatim>\<open>profile.ts\<close> does: with the logging
  of arguments enabled, an operation that returns 1 is called with an object that refers
  to itself; the operation returns, \<^verbatim>\<open>printDebugInfo\<close> calls \<^verbatim>\<open>JSON.stringify\<close> on the
  arguments outside any \<^verbatim>\<open>try\<close>, and the call of the wrapped method throws the TypeError
  instead of returning 1.
\<close>

theorem profile_throws_on_cyclic_args:
  "profile example_profile_env None (Some True) ''MyClass'' (Named ''myMethod'')
     (\<lambda>args. Returned (Plain (1::nat))) [Cyclic]
   = (Thrown circular_error, [])"
  by (simp add: profile_def printDebugInfo_def stringify_args_def example_profile_env_def)

end
